theory Spec2Isabelle
  imports Main
begin

section \<open>Data model\<close>

text \<open>
  A calendar date as Python's \<^verbatim>\<open>datetime.date\<close> carries it (year, month, day), and a
  time of day as hour and minute.
\<close>

record date =
  year :: int
  month :: int
  day :: int

type_synonym time = "nat \<times> nat"

text \<open>
  One row of the table behind \<^verbatim>\<open>apps.tasks.models.Task\<close>. The fields are the
  attributes that \<^verbatim>\<open>apps/tasks/views.py\<close> reads and writes; \<open>pk\<close> is the primary
  key, and \<open>user\<close>, \<open>folder\<close> and \<open>parent_task\<close> hold the keys of the rows they
  refer to. The status is the integer the views compare with: 0 is Pending, 1 is
  Complete.
\<close>

record task =
  pk :: nat
  user :: nat
  folder :: "nat option"
  title :: string
  priority :: int
  status :: int
  due_date :: "date option"
  due_time :: "time option"
  completed_date :: "date option"
  archived :: bool
  is_recurring :: bool
  recurrence_type :: "string option"
  recurrence_day :: "int option"
  recurrence_month :: "int option"
  last_generated :: "date option"
  parent_task :: "nat option"

text \<open>
  The exceptions a view can raise: \<^verbatim>\<open>Http404\<close> (no row for the key),
  \<^verbatim>\<open>IndexError\<close> (\<^verbatim>\<open>task.title[0]\<close> on an empty title) and
  \<^verbatim>\<open>DoesNotExist\<close> (following \<^verbatim>\<open>task.parent_task\<close> to a row that is gone).
\<close>

datatype error = Http404 | IndexError | DoesNotExist

section \<open>The persistence store\<close>

text \<open>
  The table is the list of its rows. \<^verbatim>\<open>Task.objects.filter(pk=id)\<close> is a lookup by
  key; \<^verbatim>\<open>save()\<close> writes every field of the row with that key, and inserts the row
  when the key is not in the table; \<^verbatim>\<open>save(update_fields=["last_generated"])\<close>
  writes that one column; \<^verbatim>\<open>Task.objects.create\<close> inserts a row under a key no row
  of the table has.
\<close>

type_synonym db = "task list"

definition get_row :: "db \<Rightarrow> nat \<Rightarrow> task option" where
  "get_row db i = find (\<lambda>r. pk r = i) db"

definition save :: "task \<Rightarrow> db \<Rightarrow> db" where
  "save t db =
     (if pk t \<in> set (map pk db) then map (\<lambda>r. if pk r = pk t then t else r) db
      else db @ [t])"

definition save_last_generated :: "nat \<Rightarrow> date \<Rightarrow> db \<Rightarrow> db" where
  "save_last_generated i d db =
     map (\<lambda>r. if pk r = i then r\<lparr>last_generated := Some d\<rparr> else r) db"

definition next_pk :: "db \<Rightarrow> nat" where
  "next_pk db = Suc (fold max (map pk db) 0)"

text \<open>
  Modelled from the spec: the defaults of the columns that
  \<^verbatim>\<open>Task.objects.create\<close> is not given (\<^verbatim>\<open>apps/tasks/models.py\<close> is not among the
  sources): no completed date, not archived, not recurring, no recurrence fields, no
  \<open>last_generated\<close>. The arguments are in the order of the source's keywords:
  user, folder, title, priority, status, due_date, due_time, parent_task.
\<close>

definition Task_objects_create ::
  "nat \<Rightarrow> nat option \<Rightarrow> string \<Rightarrow> int \<Rightarrow> int \<Rightarrow> date option \<Rightarrow> time option \<Rightarrow> nat \<Rightarrow> db \<Rightarrow> db"
  where
  "Task_objects_create u f ttl p st dd dt par db =
     db @ [\<lparr>pk = next_pk db, user = u, folder = f, title = ttl, priority = p, status = st,
            due_date = dd, due_time = dt, completed_date = None, archived = False,
            is_recurring = False, recurrence_type = None, recurrence_day = None,
            recurrence_month = None, last_generated = None, parent_task = Some par\<rparr>]"

text \<open>
  Deleting a row also acts on the rows that refer to it through \<open>parent_task\<close>. What
  it does is the \<^verbatim>\<open>on_delete\<close> option of the foreign key, declared in
  \<^verbatim>\<open>apps/tasks/models.py\<close>, which is not among the sources: it is a parameter here.
  \<open>CASCADE\<close> deletes the referring rows, and the rows referring to those, and so on;
  \<open>SET_NULL\<close> clears their \<open>parent_task\<close>.
\<close>

datatype on_delete = CASCADE | SET_NULL

function cascade :: "nat list \<Rightarrow> db \<Rightarrow> db" where
  "cascade ids db =
     (if list_ex (\<lambda>r. pk r \<in> set ids) db
      then cascade
             (map pk (filter (\<lambda>r. parent_task r \<in> Some ` set ids)
                        (filter (\<lambda>r. pk r \<notin> set ids) db)))
             (filter (\<lambda>r. pk r \<notin> set ids) db)
      else db)"
  by pat_completeness auto
termination
proof (relation "measure (\<lambda>(ids, db). length db)")
  show "wf (measure (\<lambda>(ids, db). length db))" by simp
next
  fix ids :: "nat list" and db :: db
  assume "list_ex (\<lambda>r. pk r \<in> set ids) db"
  then obtain r where "r \<in> set db" and "pk r \<in> set ids"
    by (auto simp: list_ex_iff)
  then have "length (filter (\<lambda>r. pk r \<notin> set ids) db) < length db"
    by (intro length_filter_less[of r]) auto
  then show "((map pk (filter (\<lambda>r. parent_task r \<in> Some ` set ids)
                         (filter (\<lambda>r. pk r \<notin> set ids) db)),
               filter (\<lambda>r. pk r \<notin> set ids) db), ids, db)
             \<in> measure (\<lambda>(ids, db). length db)"
    by simp
qed

declare cascade.simps [simp del]

definition delete_row :: "on_delete \<Rightarrow> nat \<Rightarrow> db \<Rightarrow> db" where
  "delete_row od i db =
     (case od of
        CASCADE \<Rightarrow> cascade [i] db
      | SET_NULL \<Rightarrow>
          map (\<lambda>r. if parent_task r = Some i then r\<lparr>parent_task := None\<rparr> else r)
            (filter (\<lambda>r. pk r \<noteq> i) db))"

section \<open>Python's date and string operations\<close>

text \<open>
  \<^verbatim>\<open>date.weekday()\<close> as CPython's \<^verbatim>\<open>datetime\<close> computes it: the proleptic Gregorian
  ordinal of the date plus 6, modulo 7, so that Monday is 0 and Sunday is 6. A
  \<^verbatim>\<open>date\<close> object has a month from 1 to 12 (its constructor raises otherwise), so the
  table of days before a month is read in range; for any other month the model takes 0.
\<close>

definition is_leap :: "int \<Rightarrow> bool" where
  "is_leap y = (y mod 4 = 0 \<and> (y mod 100 \<noteq> 0 \<or> y mod 400 = 0))"

definition days_before_year :: "int \<Rightarrow> int" where
  "days_before_year y = (y - 1) * 365 + (y - 1) div 4 - (y - 1) div 100 + (y - 1) div 400"

definition days_before_month :: "int \<Rightarrow> int \<Rightarrow> int" where
  "days_before_month y m =
     (if 1 \<le> m \<and> m \<le> 12
      then [0, 31, 59, 90, 120, 151, 181, 212, 243, 273, 304, 334] ! nat (m - 1)
      else 0)
     + (if m > 2 \<and> is_leap y then 1 else 0)"

definition toordinal :: "date \<Rightarrow> int" where
  "toordinal d = days_before_year (year d) + days_before_month (year d) (month d) + day d"

definition weekday :: "date \<Rightarrow> int" where
  "weekday d = (toordinal d + 6) mod 7"



section \<open>Completion toggle\<close>

text \<open>
  Lines 115 to 120 of \<^verbatim>\<open>status\<close> and 603 to 608 of \<^verbatim>\<open>status_htmx\<close>: a Complete
  task becomes Pending and loses its completed date; any other task becomes Complete,
  completed today.
\<close>

definition toggle :: "date \<Rightarrow> task \<Rightarrow> task" where
  "toggle today t =
     (if status t = 1 then t\<lparr>status := 0, completed_date := None\<rparr>
      else t\<lparr>status := 1, completed_date := Some today\<rparr>)"

text \<open>
  A view returns the exception it raised, if any, and the table as the request leaves
  it. The plain-page view \<^verbatim>\<open>status\<close> (its name is the field's, hence \<open>status_view\<close>)
  toggles and saves.
\<close>

definition status_view :: "date \<Rightarrow> nat \<Rightarrow> db \<Rightarrow> error option \<times> db" where
  "status_view today i db =
     (case get_row db i of
        None \<Rightarrow> (Some Http404, db)
      | Some task \<Rightarrow> (None, save (toggle today task) db))"

text \<open>
  \<^verbatim>\<open>Task.objects.filter(parent_task=parent, status=0, archived=False)\<close>: the pending,
  non-archived instances of a template.
\<close>

definition pending_instances :: "nat \<Rightarrow> db \<Rightarrow> task list" where
  "pending_instances p db =
     filter (\<lambda>r. parent_task r = Some p \<and> status r = 0 \<and> \<not> archived r) db"

text \<open>
  The HTMX view \<^verbatim>\<open>status_htmx\<close> toggles and saves, then generates the next instance.
  \<^verbatim>\<open>task.parent_task\<close> is followed after the save, so the template is read from the
  table as the save left it.
\<close>

definition status_htmx :: "date \<Rightarrow> nat \<Rightarrow> db \<Rightarrow> error option \<times> db" where
  "status_htmx today i db =
     (case get_row db i of
        None \<Rightarrow> (Some Http404, db)
      | Some task0 \<Rightarrow>
          let task = toggle today task0;
              db1 = save task db
          in if status task = 1 then
               (case parent_task task of
                  None \<Rightarrow> (None, db1)
                | Some p \<Rightarrow>
                    (case get_row db1 p of
                       None \<Rightarrow> (Some DoesNotExist, db1)
                     | Some parent \<Rightarrow>
                         if is_recurring parent \<and> \<not> archived parent then
                           (let has_pending = (pending_instances (pk parent) db1 \<noteq> [])
                            in if \<not> has_pending then
                                 (None,
                                  save_last_generated (pk parent) today
                                    (Task_objects_create (user parent) (folder parent)
                                       (title parent) (priority parent) 0 (Some today)
                                       (due_time parent) (pk parent) db1))
                               else (None, db1))
                         else (None, db1)))
             else (None, db1))"

section \<open>Editing a task\<close>




text \<open>
  The chain \<^verbatim>\<open>if recurrence == "daily": ... elif ... "yearly": ...\<close> that both views apply
  to the template (lines 194 to 202 and 513 to 521) and to the task itself (lines 218 to
  226 and 532 to 540), for a due date that is present.
\<close>

definition set_recurrence_day :: "string \<Rightarrow> date \<Rightarrow> task \<Rightarrow> task" where
  "set_recurrence_day rec d t =
     (if rec = ''daily'' then t\<lparr>recurrence_day := None\<rparr>
      else if rec = ''monthly'' then t\<lparr>recurrence_day := Some (day d)\<rparr>
      else if rec = ''weekly'' then t\<lparr>recurrence_day := Some (weekday d)\<rparr>
      else if rec = ''yearly'' then
        t\<lparr>recurrence_day := Some (day d), recurrence_month := Some (month d)\<rparr>
      else t)"

text \<open>
  The branch \<^verbatim>\<open>if parent_task:\<close>, lines 186 to 208 of \<^verbatim>\<open>edit\<close> and, word for word,
  505 to 526 of \<^verbatim>\<open>task_form\<close>: the instance is saved, the template takes its folder,
  title, priority and due time, and then either its recurrence fields or its deletion.
\<close>

definition edit_instance :: "on_delete \<Rightarrow> string \<Rightarrow> task \<Rightarrow> task \<Rightarrow> db \<Rightarrow> db" where
  "edit_instance od rec task parent db =
     (let db1 = save task db;
          parent1 = parent\<lparr>folder := folder task, title := title task,
                          priority := priority task, due_time := due_time task\<rparr>
      in if rec \<noteq> [] then
           (let parent2 = parent1\<lparr>recurrence_type := Some rec\<rparr>;
                parent3 = (case due_date task of
                             None \<Rightarrow> parent2
                           | Some d \<Rightarrow> set_recurrence_day rec d parent2)
            in save parent3 db1)
         else
           save (task\<lparr>parent_task := None\<rparr>) (delete_row od (pk parent) db1))"



text \<open>
  The branch \<^verbatim>\<open>else:\<close> for a task without a template, lines 212 to 264 of \<^verbatim>\<open>edit\<close>
  and 528 to 575 of \<^verbatim>\<open>task_form\<close>, where the two views have the same statements.
  First the recurrence fields of the task itself (lines 212 to 231), then the save and
  what follows it.
\<close>

definition set_recurrence :: "string \<Rightarrow> task \<Rightarrow> task" where
  "set_recurrence rec task0 =
     (if rec \<noteq> [] then
        (let t1 = task0\<lparr>is_recurring := True, recurrence_type := Some rec\<rparr>
         in case due_date t1 of
              None \<Rightarrow> t1
            | Some d \<Rightarrow> set_recurrence_day rec d t1)
      else task0\<lparr>is_recurring := False, recurrence_type := None,
                  recurrence_day := None, recurrence_month := None\<rparr>)"




text \<open>
  The modal view \<^verbatim>\<open>task_form\<close>: as \<^verbatim>\<open>edit\<close>, and it also keeps the completed date in
  step with a status the form changed (lines 498 to 501).
\<close>

definition sync_completed_date :: "date \<Rightarrow> int \<Rightarrow> task \<Rightarrow> task" where
  "sync_completed_date today old_status t =
     (if status t = 1 \<and> old_status \<noteq> 1 then t\<lparr>completed_date := Some today\<rparr>
      else if status t \<noteq> 1 \<and> old_status = 1 then t\<lparr>completed_date := None\<rparr>
      else t)"


section \<open>Deleting, and setting the status of the visible tasks\<close>



text \<open>
  \<^verbatim>\<open>bulk_status_htmx\<close>. The session flag \<^verbatim>\<open>tasks_all\<close> and the folder that
  \<^verbatim>\<open>select_folder\<close> returns (\<^verbatim>\<open>apps/folders\<close> is not among the sources) are
  parameters, as is the status the request asks for. \<open>visible\<close> is the query set
  \<open>qs\<close> of lines 664 to 673; \<^verbatim>\<open>update\<close> writes the two columns of every row it
  selects and nothing else.
\<close>

definition visible :: "nat \<Rightarrow> bool \<Rightarrow> nat option \<Rightarrow> task \<Rightarrow> bool" where
  "visible request_user tasks_folder_all selected_folder r =
     (if tasks_folder_all then
        user r = request_user \<and> \<not> is_recurring r \<and> \<not> archived r
      else if selected_folder \<noteq> None then
        folder r = selected_folder \<and> \<not> is_recurring r \<and> \<not> archived r
      else
        user r = request_user \<and> folder r = None \<and> \<not> is_recurring r \<and> \<not> archived r)"

definition bulk_status_htmx :: "date \<Rightarrow> nat \<Rightarrow> int \<Rightarrow> bool \<Rightarrow> nat option \<Rightarrow> db \<Rightarrow> db" where
  "bulk_status_htmx today request_user new_status tasks_folder_all selected_folder db =
     (if new_status = 1 then
        map (\<lambda>r. if visible request_user tasks_folder_all selected_folder r \<and> status r = 0
                 then r\<lparr>status := 1, completed_date := Some today\<rparr> else r) db
      else
        map (\<lambda>r. if visible request_user tasks_folder_all selected_folder r \<and> status r = 1
                 then r\<lparr>status := 0, completed_date := None\<rparr> else r) db)"

section \<open>Reminder mail\<close>

text \<open>
  \<^verbatim>\<open>config/email.py\<close>. The mail transport \<^verbatim>\<open>send_mail\<close>, the settings, the
  \<^verbatim>\<open>strftime\<close> formats and the folder's name are the environment: \<open>send_mail\<close>
  returns \<open>None\<close> when the message went out and \<open>Some e\<close> when the transport raised
  an exception whose \<^verbatim>\<open>str\<close> is \<open>e\<close>. The result of the two functions is a Python
  dict from strings to booleans and strings.
\<close>

record mail_env =
  send_mail :: "string \<Rightarrow> string \<Rightarrow> string \<Rightarrow> string list \<Rightarrow> string option"
  server_email :: string
  site_name :: string
  strftime_date :: "date \<Rightarrow> string"
  strftime_time :: "time \<Rightarrow> string"
  folder_name :: "nat \<Rightarrow> string"

record mail_user =
  notification_email :: "string option"
  email :: "string option"

datatype pyval = PyBool bool | PyStr string

type_synonym pydict = "string \<rightharpoonup> pyval"

text \<open>\<^verbatim>\<open>a or b\<close> on optional strings: \<^verbatim>\<open>None\<close> and the empty string are false.\<close>

definition py_or :: "string option \<Rightarrow> string option \<Rightarrow> string option" where
  "py_or a b = (case a of None \<Rightarrow> b | Some s \<Rightarrow> if s = [] then b else a)"

definition join :: "string \<Rightarrow> string list \<Rightarrow> string" where
  "join sep xs = (case xs of [] \<Rightarrow> [] | y # ys \<Rightarrow> foldl (\<lambda>acc x. acc @ sep @ x) y ys)"

definition build_body :: "mail_env \<Rightarrow> task \<Rightarrow> string \<Rightarrow> string" where
  "build_body env t reminder_type =
     (let lines0 =
            (if reminder_type = ''due_today'' then
               [''Your task '' @ [CHR 0x22] @ title t @ [CHR 0x22] @ '' is due today.'']
             else if reminder_type = ''due_soon'' then
               [''Your task '' @ [CHR 0x22] @ title t @ [CHR 0x22] @ '' is due soon at ''
                  @ (case due_time t of Some tm \<Rightarrow> strftime_time env tm | None \<Rightarrow> [])
                  @ ''.'']
             else if reminder_type = ''overdue'' then
               [''Your task '' @ [CHR 0x22] @ title t @ [CHR 0x22] @ '' is overdue.'']
             else []);
          lines1 = lines0 @ [[]];
          lines2 = (case due_date t of
                      Some d \<Rightarrow> lines1 @ [''Due date: '' @ strftime_date env d]
                    | None \<Rightarrow> lines1);
          lines3 = (case due_time t of
                      Some tm \<Rightarrow> lines2 @ [''Due time: '' @ strftime_time env tm]
                    | None \<Rightarrow> lines2);
          lines4 = (case folder t of
                      Some f \<Rightarrow> lines3 @ [''Folder: '' @ folder_name env f]
                    | None \<Rightarrow> lines3)
      in join [CHR 0x0A] (lines4 @ [[], ''-- '' @ site_name env]))"

text \<open>
  The two dict literals the functions return: \<^verbatim>\<open>{"success": True}\<close> and
  \<^verbatim>\<open>{"success": False, "error": ...}\<close>.
\<close>

definition succeeded :: pydict where
  "succeeded = [''success'' \<mapsto> PyBool True]"

definition failed :: "string \<Rightarrow> pydict" where
  "failed e = [''success'' \<mapsto> PyBool False, ''error'' \<mapsto> PyStr e]"

text \<open>\<^verbatim>\<open>subject_map.get(reminder_type, f"Task Reminder: {task.title}")\<close>.\<close>

definition reminder_subject :: "task \<Rightarrow> string \<Rightarrow> string" where
  "reminder_subject t reminder_type =
     (if reminder_type = ''due_today'' then ''Task Due Today: '' @ title t
      else if reminder_type = ''due_soon'' then ''Task Due Soon: '' @ title t
      else if reminder_type = ''overdue'' then ''Overdue Task: '' @ title t
      else ''Task Reminder: '' @ title t)"

definition send_task_reminder_email :: "mail_env \<Rightarrow> mail_user \<Rightarrow> task \<Rightarrow> string \<Rightarrow> pydict" where
  "send_task_reminder_email env usr t reminder_type =
     (case py_or (notification_email usr) (email usr) of
        None \<Rightarrow> failed ''User has no email address''
      | Some recipient \<Rightarrow>
          if recipient = [] then failed ''User has no email address''
          else
            (let subject = reminder_subject t reminder_type;
                 body = build_body env t reminder_type
             in case send_mail env subject body (server_email env) [recipient] of
                  None \<Rightarrow> succeeded
                | Some e \<Rightarrow> failed e))"

definition digest_line :: "mail_env \<Rightarrow> task \<Rightarrow> string" where
  "digest_line env t =
     (let parts0 = [''- '' @ title t];
          parts1 = (case due_date t of
                      Some d \<Rightarrow> parts0 @ [''(due '' @ strftime_date env d @ '')'']
                    | None \<Rightarrow> parts0);
          parts2 = (case folder t of
                      Some f \<Rightarrow> parts1 @ [''['' @ folder_name env f @ '']'']
                    | None \<Rightarrow> parts1)
      in join '' '' parts2)"

definition send_past_due_digest_email :: "mail_env \<Rightarrow> mail_user \<Rightarrow> task list \<Rightarrow> pydict" where
  "send_past_due_digest_email env usr tasks =
     (case py_or (notification_email usr) (email usr) of
        None \<Rightarrow> failed ''User has no email address''
      | Some recipient \<Rightarrow>
          if recipient = [] then failed ''User has no email address''
          else
            (let lines0 = [''You have the following past due tasks:'', []];
                 lines1 = lines0 @ map (digest_line env) tasks;
                 body = join [CHR 0x0A] (lines1 @ [[], ''-- '' @ site_name env])
             in case send_mail env ''Past Due Tasks'' body (server_email env) [recipient] of
                  None \<Rightarrow> succeeded
                | Some e \<Rightarrow> failed e))"

text \<open>
  The shape \<^verbatim>\<open>{success: bool, error?: string}\<close>: the flag is there, and with a false
  flag comes an error string.
\<close>

definition reports_outcome :: "pydict \<Rightarrow> bool" where
  "reports_outcome d =
     (d ''success'' = Some (PyBool True)
      \<or> (d ''success'' = Some (PyBool False) \<and> (\<exists>e. d ''error'' = Some (PyStr e))))"

section \<open>The properties' vocabulary and sample data\<close>


text \<open>What counts towards that: a pending, non-archived row whose template is \<open>p\<close>.\<close>

definition counts :: "nat \<Rightarrow> task \<Rightarrow> bool" where
  "counts p r = (parent_task r = Some p \<and> status r = 0 \<and> \<not> archived r)"







definition ex_today :: date where
  "ex_today = \<lparr>year = 2024, month = 3, day = 15\<rparr>"

definition ex_earlier :: date where
  "ex_earlier = \<lparr>year = 2024, month = 3, day = 1\<rparr>"

text \<open>A weekly template (key 1) and its one pending instance (key 2).\<close>

definition ex_template :: task where
  "ex_template =
     \<lparr>pk = 1, user = 7, folder = Some 3, title = ''Water the plants'', priority = 5,
      status = 0, due_date = None, due_time = Some (9, 30), completed_date = None,
      archived = False, is_recurring = True, recurrence_type = Some ''weekly'',
      recurrence_day = Some 4, recurrence_month = None, last_generated = Some ex_earlier,
      parent_task = None\<rparr>"

definition ex_instance :: task where
  "ex_instance =
     \<lparr>pk = 2, user = 7, folder = Some 4, title = ''Water the ferns'', priority = 2,
      status = 0, due_date = Some ex_earlier, due_time = Some (8, 0), completed_date = None,
      archived = False, is_recurring = False, recurrence_type = None,
      recurrence_day = None, recurrence_month = None, last_generated = None,
      parent_task = Some 1\<rparr>"

definition ex_db :: db where
  "ex_db = [ex_template, ex_instance]"

text \<open>A standalone task, first Pending and then as completed on an earlier day.\<close>

definition ex_standalone :: task where
  "ex_standalone =
     \<lparr>pk = 1, user = 7, folder = None, title = ''File the report'', priority = 3,
      status = 0, due_date = Some ex_today, due_time = None, completed_date = None,
      archived = False, is_recurring = False, recurrence_type = None,
      recurrence_day = None, recurrence_month = None, last_generated = None,
      parent_task = None\<rparr>"

definition ex_done :: task where
  "ex_done = ex_standalone\<lparr>status := 1, completed_date := Some ex_earlier\<rparr>"





text \<open>
  A mail environment whose transport refuses every message, a user with an address and
  a user without one.
\<close>

definition ex_env_down :: mail_env where
  "ex_env_down =
     \<lparr>send_mail = (\<lambda>subject body sender recipients. Some ''Connection refused''),
      server_email = ''noreply@example.org'', site_name = ''Cloud Portal'',
      strftime_date = (\<lambda>d. ''March 15, 2024''), strftime_time = (\<lambda>tm. ''9:30 AM''),
      folder_name = (\<lambda>f. ''Home'')\<rparr>"

definition ex_user :: mail_user where
  "ex_user = \<lparr>notification_email = Some [], email = Some ''ann@example.org''\<rparr>"

definition ex_user_no_address :: mail_user where
  "ex_user_no_address = \<lparr>notification_email = None, email = Some []\<rparr>"

section \<open>Lookups in the store\<close>

lemma find_app:
  "find P (xs @ ys) = (case find P xs of Some x \<Rightarrow> Some x | None \<Rightarrow> find P ys)"
  by (induction xs) auto

lemma find_replace:
  "pk t = k \<Longrightarrow> find (\<lambda>r. pk r = i) (map (\<lambda>r. if pk r = k then t else r) db) =
     (if i = k then (if k \<in> pk ` set db then Some t else None) else find (\<lambda>r. pk r = i) db)"
  by (induction db) auto

lemma find_absent: "i \<notin> pk ` set db \<Longrightarrow> find (\<lambda>r. pk r = i) db = None"
  by (induction db) auto

lemma get_row_pk: "get_row db i = Some t \<Longrightarrow> pk t = i"
  unfolding get_row_def by (induction db) (auto split: if_splits)

lemma get_row_mem: "get_row db i = Some t \<Longrightarrow> t \<in> set db"
  unfolding get_row_def by (induction db) (auto split: if_splits)

lemma get_row_save_same: "get_row (save t db) (pk t) = Some t"
  unfolding get_row_def save_def by (simp add: find_replace find_app find_absent)

lemma get_row_save_other: "i \<noteq> pk t \<Longrightarrow> get_row (save t db) i = get_row db i"
  unfolding get_row_def save_def by (simp add: find_replace find_app split: option.splits)

lemma get_row_save_last_generated:
  "get_row (save_last_generated p d db) i =
     map_option (\<lambda>r. if pk r = p then r\<lparr>last_generated := Some d\<rparr> else r) (get_row db i)"
  unfolding get_row_def save_last_generated_def by (induction db) auto

lemma get_row_create:
  "get_row db i = Some t \<Longrightarrow>
   get_row (Task_objects_create u f ttl p st dd dt par db) i = Some t"
  unfolding get_row_def Task_objects_create_def by (simp add: find_app)

section \<open>Toggling twice\<close>

lemma pk_toggle: "pk (toggle d t) = pk t"
  by (simp add: toggle_def)

lemma status_view_row:
  assumes "get_row db i = Some t"
  shows "\<exists>t'. get_row (snd (status_view d i db)) i = Some t'
            \<and> status t' = status (toggle d t)
            \<and> completed_date t' = completed_date (toggle d t)"
proof -
  have "pk (toggle d t) = i"
    using assms by (simp add: pk_toggle get_row_pk)
  then have "get_row (save (toggle d t) db) i = Some (toggle d t)"
    using get_row_save_same[of "toggle d t" db] by simp
  then show ?thesis
    using assms by (simp add: status_view_def)
qed

lemma status_htmx_row:
  assumes "get_row db i = Some t"
  shows "\<exists>t'. get_row (snd (status_htmx d i db)) i = Some t'
            \<and> status t' = status (toggle d t)
            \<and> completed_date t' = completed_date (toggle d t)"
proof -
  have "pk (toggle d t) = i"
    using assms by (simp add: pk_toggle get_row_pk)
  then have "get_row (save (toggle d t) db) i = Some (toggle d t)"
    using get_row_save_same[of "toggle d t" db] by simp
  then show ?thesis
    using assms
    by (auto simp: status_htmx_def Let_def get_row_save_last_generated get_row_create
        split: option.splits)
qed

text \<open>
  C4, as amended. A task that is Pending or Complete, toggled twice through either view
  (on the days \<open>d1\<close> and \<open>d2\<close>), has its original status again. Its completed date is
  null again when it was Pending; when it was Complete, its completed date is the day of
  the second toggle, whatever it was before.
\<close>

theorem toggle_twice_restores_status:
  assumes "get_row db i = Some t" and "status t = 0 \<or> status t = 1"
  shows "(\<exists>t'. get_row (snd (status_view d2 i (snd (status_view d1 i db)))) i = Some t'
            \<and> status t' = status t
            \<and> completed_date t' = (if status t = 1 then Some d2 else None))
       \<and> (\<exists>t'. get_row (snd (status_htmx d2 i (snd (status_htmx d1 i db)))) i = Some t'
            \<and> status t' = status t
            \<and> completed_date t' = (if status t = 1 then Some d2 else None))"
proof -
  obtain t1 where t1: "get_row (snd (status_view d1 i db)) i = Some t1"
    "status t1 = status (toggle d1 t)"
    using status_view_row[OF assms(1), of d1] by blast
  obtain t2 where t2: "get_row (snd (status_view d2 i (snd (status_view d1 i db)))) i = Some t2"
    "status t2 = status (toggle d2 t1)" "completed_date t2 = completed_date (toggle d2 t1)"
    using status_view_row[OF t1(1), of d2] by blast
  obtain h1 where h1: "get_row (snd (status_htmx d1 i db)) i = Some h1"
    "status h1 = status (toggle d1 t)"
    using status_htmx_row[OF assms(1), of d1] by blast
  obtain h2 where h2: "get_row (snd (status_htmx d2 i (snd (status_htmx d1 i db)))) i = Some h2"
    "status h2 = status (toggle d2 h1)" "completed_date h2 = completed_date (toggle d2 h1)"
    using status_htmx_row[OF h1(1), of d2] by blast
  have "status t2 = status t \<and> completed_date t2 = (if status t = 1 then Some d2 else None)"
    using t1(2) t2(2,3) assms(2) by (auto simp: toggle_def split: if_splits)
  moreover
  have "status h2 = status t \<and> completed_date h2 = (if status t = 1 then Some d2 else None)"
    using h1(2) h2(2,3) assms(2) by (auto simp: toggle_def split: if_splits)
  ultimately show ?thesis
    using t2(1) h2(1) by simp
qed

text \<open>The theorem at a Pending standalone task, toggled on two days.\<close>

theorem toggle_twice_restores_status_witness:
  "get_row [ex_standalone] 1 = Some ex_standalone
   \<and> (status ex_standalone = 0 \<or> status ex_standalone = 1)
   \<and> (\<exists>t'. get_row (snd (status_view ex_today 1
                            (snd (status_view ex_earlier 1 [ex_standalone])))) 1 = Some t'
            \<and> status t' = status ex_standalone
            \<and> completed_date t' = (if status ex_standalone = 1 then Some ex_today else None))
   \<and> (\<exists>t'. get_row (snd (status_htmx ex_today 1
                            (snd (status_htmx ex_earlier 1 [ex_standalone])))) 1 = Some t'
            \<and> status t' = status ex_standalone
            \<and> completed_date t' = (if status ex_standalone = 1 then Some ex_today else None))"
proof -
  have a: "get_row [ex_standalone] 1 = Some ex_standalone"
    by (simp add: get_row_def ex_standalone_def)
  have b: "status ex_standalone = 0 \<or> status ex_standalone = 1"
    by (simp add: ex_standalone_def)
  show ?thesis
    using a b toggle_twice_restores_status[OF a b, of ex_today ex_earlier] by simp
qed

text \<open>
  C4 as stated fails: a task completed on 1 March 2024 and toggled twice on 15 March is
  Complete again, but completed on 15 March.
\<close>

theorem toggle_twice_completed_date_counterexample:
  "get_row (snd (status_view ex_today 1 (snd (status_view ex_today 1 [ex_done])))) 1
     = Some (ex_done\<lparr>completed_date := Some ex_today\<rparr>)
   \<and> get_row (snd (status_htmx ex_today 1 (snd (status_htmx ex_today 1 [ex_done])))) 1
     = Some (ex_done\<lparr>completed_date := Some ex_today\<rparr>)
   \<and> completed_date ex_done = Some ex_earlier
   \<and> ex_earlier \<noteq> ex_today"
  by (simp add: status_view_def status_htmx_def get_row_def save_def toggle_def ex_done_def
      ex_standalone_def ex_today_def ex_earlier_def)

section \<open>Setting the status of the visible tasks: the frame\<close>

text \<open>
  C10. Row by row, the table after \<^verbatim>\<open>bulk_status_htmx\<close> is the table before: no row
  is added or removed, a row differs from what it was in its status and completed date
  at most (so no \<open>last_generated\<close> changes, a template's included), and a row that
  differs was visible, hence neither recurring nor archived.
\<close>

theorem bulk_status_htmx_frame:
  "list_all2
     (\<lambda>r r'. r'\<lparr>status := status r, completed_date := completed_date r\<rparr> = r
         \<and> (r' \<noteq> r \<longrightarrow> visible u all sel r \<and> \<not> is_recurring r \<and> \<not> archived r))
     db (bulk_status_htmx today u ns all sel db)"
proof -
  have v: "\<And>r. visible u all sel r \<Longrightarrow> \<not> is_recurring r \<and> \<not> archived r"
    by (auto simp: visible_def split: if_splits)
  show ?thesis
    unfolding bulk_status_htmx_def
    by (auto simp: list_all2_map2 list_all2_same dest: v)
qed

text \<open>
  The theorem where the request completes all tasks of user 7: the Pending instance of
  the recurring template is marked Complete, the template keeps its \<open>last_generated\<close>
  and no row appears.
\<close>

theorem bulk_status_htmx_frame_witness:
  "bulk_status_htmx ex_today 7 1 True None ex_db
     = [ex_template, ex_instance\<lparr>status := 1, completed_date := Some ex_today\<rparr>]
   \<and> list_all2
     (\<lambda>r r'. r'\<lparr>status := status r, completed_date := completed_date r\<rparr> = r
         \<and> (r' \<noteq> r \<longrightarrow> visible 7 True None r \<and> \<not> is_recurring r \<and> \<not> archived r))
     ex_db (bulk_status_htmx ex_today 7 1 True None ex_db)"
proof -
  have "bulk_status_htmx ex_today 7 1 True None ex_db
     = [ex_template, ex_instance\<lparr>status := 1, completed_date := Some ex_today\<rparr>]"
    by (simp add: bulk_status_htmx_def visible_def ex_db_def ex_template_def ex_instance_def)
  then show ?thesis
    using bulk_status_htmx_frame[of 7 True None ex_db ex_today 1] by simp
qed

section \<open>Reminder mail: the outcome\<close>

lemma reports_outcome_succeeded: "reports_outcome succeeded"
  by (simp add: reports_outcome_def succeeded_def)

lemma reports_outcome_failed: "reports_outcome (failed e)"
  by (simp add: reports_outcome_def failed_def)

lemma reminder_reports: "reports_outcome (send_task_reminder_email env usr t reminder_type)"
  unfolding send_task_reminder_email_def Let_def
  by (simp add: reports_outcome_succeeded reports_outcome_failed split: option.split)

lemma digest_reports: "reports_outcome (send_past_due_digest_email env usr ts)"
  unfolding send_past_due_digest_email_def Let_def
  by (simp add: reports_outcome_succeeded reports_outcome_failed split: option.split)

text \<open>
  C8. Both functions return a dict with the success flag, and with an error string
  whenever the flag is false, for every environment, user and task; a user without an
  address gets the failure "User has no email address"; and when the transport raises,
  the exception does not leave the function: its text comes back as the error of a
  failure.
\<close>

theorem mail_reports_outcome:
  assumes "py_or (notification_email usr0) (email usr0) \<in> {None, Some []}"
    and "py_or (notification_email usr1) (email usr1) \<notin> {None, Some []}"
    and "\<forall>subject body sender recipients. send_mail env1 subject body sender recipients = Some e"
  shows "reports_outcome (send_task_reminder_email env usr t reminder_type)
   \<and> reports_outcome (send_past_due_digest_email env usr ts)
   \<and> send_task_reminder_email env usr0 t reminder_type = failed ''User has no email address''
   \<and> send_past_due_digest_email env usr0 ts = failed ''User has no email address''
   \<and> send_task_reminder_email env1 usr1 t reminder_type = failed e
   \<and> send_past_due_digest_email env1 usr1 ts = failed e"
proof -
  have none: "send_task_reminder_email env usr0 t reminder_type
                = failed ''User has no email address''"
    "send_past_due_digest_email env usr0 ts = failed ''User has no email address''"
    using assms(1)
    by (auto simp: send_task_reminder_email_def send_past_due_digest_email_def)
  have down: "send_task_reminder_email env1 usr1 t reminder_type = failed e"
    "send_past_due_digest_email env1 usr1 ts = failed e"
    using assms(2,3)
    by (auto simp: send_task_reminder_email_def send_past_due_digest_email_def Let_def
        split: option.splits)
  show ?thesis using reminder_reports digest_reports none down by simp
qed

text \<open>
  The theorem at a user without an address, and at a user with one when the transport
  refuses the connection.
\<close>

theorem mail_reports_outcome_witness:
  "py_or (notification_email ex_user_no_address) (email ex_user_no_address) \<in> {None, Some []}
   \<and> py_or (notification_email ex_user) (email ex_user) \<notin> {None, Some []}
   \<and> (\<forall>subject body sender recipients.
         send_mail ex_env_down subject body sender recipients = Some ''Connection refused'')
   \<and> reports_outcome (send_task_reminder_email ex_env_down ex_user ex_instance ''due_today'')
   \<and> reports_outcome (send_past_due_digest_email ex_env_down ex_user [ex_instance])
   \<and> send_task_reminder_email ex_env_down ex_user_no_address ex_instance ''due_today''
        = failed ''User has no email address''
   \<and> send_past_due_digest_email ex_env_down ex_user_no_address [ex_instance]
        = failed ''User has no email address''
   \<and> send_task_reminder_email ex_env_down ex_user ex_instance ''due_today''
        = failed ''Connection refused''
   \<and> send_past_due_digest_email ex_env_down ex_user [ex_instance]
        = failed ''Connection refused''"
proof -
  have a: "py_or (notification_email ex_user_no_address) (email ex_user_no_address)
             \<in> {None, Some []}"
    by (simp add: py_or_def ex_user_no_address_def)
  have b: "py_or (notification_email ex_user) (email ex_user) \<notin> {None, Some []}"
    by (simp add: py_or_def ex_user_def)
  have c: "\<forall>subject body sender recipients.
         send_mail ex_env_down subject body sender recipients = Some ''Connection refused''"
    by (simp add: ex_env_down_def)
  note r = mail_reports_outcome[OF a b c, of ex_env_down ex_user ex_instance "''due_today''"
      "[ex_instance]"]
  show ?thesis
    by (intro conjI a b c r[THEN conjunct1] r[THEN conjunct2, THEN conjunct1]
        r[THEN conjunct2, THEN conjunct2, THEN conjunct1]
        r[THEN conjunct2, THEN conjunct2, THEN conjunct2, THEN conjunct1]
        r[THEN conjunct2, THEN conjunct2, THEN conjunct2, THEN conjunct2, THEN conjunct1]
        r[THEN conjunct2, THEN conjunct2, THEN conjunct2, THEN conjunct2, THEN conjunct2])
qed


section \<open>Rows of the store\<close>

lemma save_rows:
  assumes "r \<in> set (save t db)"
  shows "r = t \<or> (r \<in> set db \<and> pk r \<noteq> pk t)"
proof (cases "pk t \<in> pk ` set db")
  case True
  then show ?thesis using assms by (auto simp: save_def split: if_splits)
next
  case False
  then have "\<forall>x\<in>set db. pk x \<noteq> pk t" by (metis imageI)
  then show ?thesis using assms False by (auto simp: save_def)
qed


lemma length_save: "pk t \<in> pk ` set db \<Longrightarrow> length (save t db) = length db"
  by (simp add: save_def)

lemma get_row_dom: "get_row db i = Some t \<Longrightarrow> i \<in> pk ` set db"
  using get_row_mem get_row_pk by fastforce


lemma fold_max_ge: "(a::nat) \<le> fold max xs a"
  by (induction xs arbitrary: a) (auto intro: order_trans[OF max.cobounded2])

lemma fold_max_mem: "(x::nat) \<in> set xs \<Longrightarrow> x \<le> fold max xs a"
proof (induction xs arbitrary: a)
  case Nil then show ?case by simp
next
  case (Cons y ys)
  show ?case
  proof (cases "x = y")
    case True
    have "y \<le> max y a" by simp
    also have "\<dots> \<le> fold max ys (max y a)" by (rule fold_max_ge)
    finally show ?thesis using True by simp
  next
    case False
    then show ?thesis using Cons by simp
  qed
qed

lemma next_pk_fresh: "next_pk db \<notin> pk ` set db"
proof
  assume "next_pk db \<in> pk ` set db"
  then have "next_pk db \<in> set (map pk db)" by simp
  then have "next_pk db \<le> fold max (map pk db) 0" by (rule fold_max_mem)
  then show False by (simp add: next_pk_def)
qed




lemma pk_set_recurrence_day [simp]: "pk (set_recurrence_day rec d t) = pk t"
  and parent_set_recurrence_day [simp]: "parent_task (set_recurrence_day rec d t) = parent_task t"
  by (simp_all add: set_recurrence_day_def)

lemma pk_set_recurrence [simp]: "pk (set_recurrence rec t) = pk t"
  and parent_set_recurrence [simp]: "parent_task (set_recurrence rec t) = parent_task t"
  by (simp_all add: set_recurrence_def Let_def split: option.split)





section \<open>The two edit views on a valid form\<close>





lemma sync_fields [simp]:
  "pk (sync_completed_date d s t) = pk t"
  "user (sync_completed_date d s t) = user t"
  "folder (sync_completed_date d s t) = folder t"
  "title (sync_completed_date d s t) = title t"
  "priority (sync_completed_date d s t) = priority t"
  "status (sync_completed_date d s t) = status t"
  "due_date (sync_completed_date d s t) = due_date t"
  "due_time (sync_completed_date d s t) = due_time t"
  "archived (sync_completed_date d s t) = archived t"
  "is_recurring (sync_completed_date d s t) = is_recurring t"
  "recurrence_type (sync_completed_date d s t) = recurrence_type t"
  "recurrence_day (sync_completed_date d s t) = recurrence_day t"
  "recurrence_month (sync_completed_date d s t) = recurrence_month t"
  "last_generated (sync_completed_date d s t) = last_generated t"
  "parent_task (sync_completed_date d s t) = parent_task t"
  by (simp_all add: sync_completed_date_def)

lemma set_recurrence_fields [simp]:
  "user (set_recurrence rec t) = user t"
  "folder (set_recurrence rec t) = folder t"
  "title (set_recurrence rec t) = title t"
  "priority (set_recurrence rec t) = priority t"
  "status (set_recurrence rec t) = status t"
  "due_date (set_recurrence rec t) = due_date t"
  "due_time (set_recurrence rec t) = due_time t"
  "completed_date (set_recurrence rec t) = completed_date t"
  "archived (set_recurrence rec t) = archived t"
  "last_generated (set_recurrence rec t) = last_generated t"
  by (simp_all add: set_recurrence_def set_recurrence_day_def Let_def split: option.split)



section \<open>Turning recurrence on\<close>




section \<open>The derivation of the recurrence fields\<close>


lemma weekday_range: "0 \<le> weekday d \<and> weekday d \<le> 6"
  by (simp add: weekday_def)





text \<open>
  The same rule when an instance is edited: the template takes the instance's folder,
  title, priority and due time, and its recurrence fields from the instance's due date.
\<close>

lemma edit_instance_template_row:
  assumes "rec \<in> {''daily'', ''weekly'', ''monthly'', ''yearly''}"
  shows "\<exists>par'. get_row (edit_instance od rec T par db) (pk par) = Some par'
          \<and> folder par' = folder T \<and> title par' = title T \<and> priority par' = priority T
          \<and> due_time par' = due_time T
          \<and> recurrence_type par' = Some rec
          \<and> recurrence_day par' =
               (case due_date T of
                  None \<Rightarrow> recurrence_day par
                | Some d \<Rightarrow> if rec = ''daily'' then None
                            else if rec = ''weekly'' then Some (weekday d)
                            else Some (day d))
          \<and> recurrence_month par' =
               (case due_date T of
                  None \<Rightarrow> recurrence_month par
                | Some d \<Rightarrow> if rec = ''yearly'' then Some (month d) else recurrence_month par)"
proof -
  let ?p1 = "par\<lparr>folder := folder T, title := title T, priority := priority T,
                  due_time := due_time T, recurrence_type := Some rec\<rparr>"
  let ?p3 = "case due_date T of None \<Rightarrow> ?p1 | Some d \<Rightarrow> set_recurrence_day rec d ?p1"
  have pk3: "pk ?p3 = pk par" by (simp split: option.split)
  have ne: "rec \<noteq> []" using assms by auto
  have "edit_instance od rec T par db = save ?p3 (save T db)"
    using ne by (simp add: edit_instance_def Let_def)
  then have "get_row (edit_instance od rec T par db) (pk par) = Some ?p3"
    using get_row_save_same[of ?p3 "save T db"] pk3 by simp
  then show ?thesis
    using assms by (auto simp: set_recurrence_day_def split: option.split)
qed

section \<open>Clearing the recurrence of an instance\<close>






section \<open>Who may change a task\<close>







section \<open>At most one pending instance: completing a task\<close>

lemma pending_instances_counts: "pending_instances p db = filter (counts p) db"
  by (simp add: pending_instances_def counts_def[abs_def])








section \<open>At most one pending instance: distinct keys and deletion\<close>










section \<open>At most one pending instance: edits\<close>







section \<open>At most one pending instance: sequences of requests\<close>













section \<open>Completing the pending instance of a template\<close>

text \<open>
  What C2 states holds for \<^verbatim>\<open>status_htmx\<close>: completing an instance whose template
  (another row) is recurring and not archived, and has no other pending, non-archived
  instance, adds exactly one row, copied from the template, due today, Pending, with the
  template as its template, and stamps the template's \<open>last_generated\<close>.
\<close>

lemma status_htmx_generates_next:
  assumes row: "get_row db i = Some t" and pend: "status t \<noteq> 1"
    and par: "parent_task t = Some p" "p \<noteq> i" "get_row db p = Some par"
    and active: "is_recurring par" "\<not> archived par"
    and others: "\<forall>r\<in>set db. counts p r \<longrightarrow> pk r = i"
  shows "status_htmx today i db =
     (None,
      save_last_generated p today (save (toggle today t) db) @
        [\<lparr>pk = next_pk (save (toggle today t) db), user = user par, folder = folder par,
          title = title par, priority = priority par, status = 0, due_date = Some today,
          due_time = due_time par, completed_date = None, archived = False,
          is_recurring = False, recurrence_type = None, recurrence_day = None,
          recurrence_month = None, last_generated = None, parent_task = Some p\<rparr>])"
    and "get_row (snd (status_htmx today i db)) p = Some (par\<lparr>last_generated := Some today\<rparr>)"
    and "length (snd (status_htmx today i db)) = Suc (length db)"
proof -
  let ?t = "toggle today t"
  let ?db1 = "save ?t db"
  have pki: "pk ?t = i" using row by (simp add: pk_toggle get_row_pk)
  have pkp: "pk par = p" using par(3) by (rule get_row_pk)
  have st: "status ?t = 1" "parent_task ?t = Some p" using pend par(1) by (simp_all add: toggle_def)
  have gp: "get_row ?db1 p = Some par"
    using par(2,3) pki by (simp add: get_row_save_other)
  have "\<not> counts p r" if "r \<in> set ?db1" for r
  proof
    assume c: "counts p r"
    from save_rows[OF that] show False
    proof
      assume "r = ?t" then show False using c st(1) by (simp add: counts_def)
    next
      assume "r \<in> set db \<and> pk r \<noteq> pk ?t"
      then show False using others c pki by auto
    qed
  qed
  then have none: "pending_instances p ?db1 = []"
    by (simp add: pending_instances_counts filter_empty_conv)
  have fresh: "next_pk ?db1 \<noteq> p"
    using next_pk_fresh[of ?db1] get_row_dom[OF gp] by auto
  show eq: "status_htmx today i db =
     (None,
      save_last_generated p today ?db1 @
        [\<lparr>pk = next_pk ?db1, user = user par, folder = folder par,
          title = title par, priority = priority par, status = 0, due_date = Some today,
          due_time = due_time par, completed_date = None, archived = False,
          is_recurring = False, recurrence_type = None, recurrence_day = None,
          recurrence_month = None, last_generated = None, parent_task = Some p\<rparr>])"
    using row st gp pkp active none fresh
    by (simp add: status_htmx_def Let_def Task_objects_create_def save_last_generated_def)
  have "get_row (save_last_generated p today ?db1) p = Some (par\<lparr>last_generated := Some today\<rparr>)"
    using gp pkp by (simp add: get_row_save_last_generated)
  then show "get_row (snd (status_htmx today i db)) p = Some (par\<lparr>last_generated := Some today\<rparr>)"
    unfolding eq by (simp add: get_row_def find_app)
  show "length (snd (status_htmx today i db)) = Suc (length db)"
    unfolding eq using length_save[of ?t db] pki get_row_dom[OF row]
    by (simp add: save_last_generated_def)
qed


text \<open>
  C2, on the plain-page view. Completing the pending instance of the weekly template
  through \<^verbatim>\<open>status\<close> marks it Complete and does nothing else: no instance is
  created and the template's \<open>last_generated\<close> stays 1 March. The same request through
  \<^verbatim>\<open>status_htmx\<close> creates instance 3 from the template and stamps the template.
\<close>

theorem status_view_generates_no_instance:
  "status_view ex_today 2 ex_db
     = (None, [ex_template, ex_instance\<lparr>status := 1, completed_date := Some ex_today\<rparr>])
   \<and> status_htmx ex_today 2 ex_db
     = (None, [ex_template\<lparr>last_generated := Some ex_today\<rparr>,
               ex_instance\<lparr>status := 1, completed_date := Some ex_today\<rparr>,
               ex_template\<lparr>pk := 3, due_date := Some ex_today, is_recurring := False,
                 recurrence_type := None, recurrence_day := None, last_generated := None,
                 parent_task := Some 1\<rparr>])"
  by (simp add: status_view_def status_htmx_def get_row_def save_def toggle_def
      pending_instances_def Task_objects_create_def save_last_generated_def next_pk_def
      Let_def ex_db_def ex_template_def ex_instance_def)

section \<open>The plain-page and the HTMX views\<close>


end
